theory Spec2Isabelle
  imports Complex_Main "HOL-Library.Word"
begin

section \<open>Growth, division and boundary rule of the cell simulation (boundaries.h)\<close>

text \<open>
  The development embeds \<^verbatim>\<open>src/boundaries.h\<close>: the constants of the simulation
  space, the cell type \<^verbatim>\<open>MyCell\<close> with its two constructors, the behaviour
  \<^verbatim>\<open>GrowthModule::Run\<close> and the set-up function \<^verbatim>\<open>Simulate\<close>.

  A C++ \<^verbatim>\<open>double\<close> is modelled by a real number: the code only compares
  coordinates with constants and stores constants, so rounding plays no part; a NaN, which
  fails every comparison, is outside the model. The C++ \<^verbatim>\<open>int\<close> of the colour tag is a
  32-bit word.
\<close>

type_synonym double = real

type_synonym array3 = "double \<times> double \<times> double"

fun at0 :: "array3 \<Rightarrow> double" where
  "at0 (c0, c1, c2) = c0"

fun at1 :: "array3 \<Rightarrow> double" where
  "at1 (c0, c1, c2) = c1"

fun at2 :: "array3 \<Rightarrow> double" where
  "at2 (c0, c1, c2) = c2"

fun set0 :: "double \<Rightarrow> array3 \<Rightarrow> array3" where
  "set0 v (c0, c1, c2) = (v, c1, c2)"

fun set1 :: "double \<Rightarrow> array3 \<Rightarrow> array3" where
  "set1 v (c0, c1, c2) = (c0, v, c2)"

subsection \<open>Constants (lines 19 to 35)\<close>

definition simulation_steps :: int where
  "simulation_steps = 600"

definition x_range :: double where
  "x_range = 150"

definition y_range :: double where
  "y_range = 150"

definition z_range :: double where
  "z_range = 4500"

definition simulation_cube_dim :: double where
  "simulation_cube_dim = 4500"

definition z_pos_init :: double where
  "z_pos_init = 0 - (simulation_cube_dim / 2)"

definition x_min :: double where
  "x_min = - x_range / 2"

definition x_max :: double where
  "x_max = x_range / 2"

text \<open>Both bounds of y are computed from \<^verbatim>\<open>x_range\<close>, as in lines 30 and 31.\<close>

definition y_min :: double where
  "y_min = - x_range / 2"

definition y_max :: double where
  "y_max = x_range / 2"

definition num_cells :: nat where
  "num_cells = 10"

subsection \<open>The cell\<close>

datatype biology_module = GrowthModule

text \<open>
  Modelled from the spec: the base class \<^verbatim>\<open>Cell\<close> is declared in \<^verbatim>\<open>biodynamo.h\<close>, which is
  not among the sources. The record has the data members that section 3 of the specification
  lists for an agent and that boundaries.h reaches through getters and setters; the accessors
  below read and write the field of their name.
\<close>

record Cell =
  position :: array3
  diameter :: double
  adherence :: double
  mass :: double
  biology_modules :: "biology_module list"

text \<open>
  \<^verbatim>\<open>MyCell\<close> (lines 41 to 77) extends \<^verbatim>\<open>Cell\<close> by \<^verbatim>\<open>can_divide_\<close> and \<^verbatim>\<open>cell_color_\<close>
  (the fields \<open>can_divide\<close> and \<open>cell_color\<close>). The
  base sub-object is the field \<open>base\<close>, so that an operation of the library, which is written
  for \<^verbatim>\<open>Cell\<close>, has no access to the two added members.
\<close>

record MyCell =
  base :: Cell
  can_divide :: bool
  cell_color :: "32 word"

definition GetDiameter :: "MyCell \<Rightarrow> double" where
  "GetDiameter c = diameter (base c)"

definition SetDiameter :: "double \<Rightarrow> MyCell \<Rightarrow> MyCell" where
  "SetDiameter d c = c\<lparr>base := (base c)\<lparr>diameter := d\<rparr>\<rparr>"

definition SetAdherence :: "double \<Rightarrow> MyCell \<Rightarrow> MyCell" where
  "SetAdherence a c = c\<lparr>base := (base c)\<lparr>adherence := a\<rparr>\<rparr>"

definition SetMass :: "double \<Rightarrow> MyCell \<Rightarrow> MyCell" where
  "SetMass m c = c\<lparr>base := (base c)\<lparr>mass := m\<rparr>\<rparr>"

definition AddBiologyModule :: "biology_module \<Rightarrow> MyCell \<Rightarrow> MyCell" where
  "AddBiologyModule m c = c\<lparr>base := (base c)\<lparr>biology_modules := biology_modules (base c) @ [m]\<rparr>\<rparr>"

definition GetPosition :: "MyCell \<Rightarrow> array3" where
  "GetPosition c = position (base c)"

definition SetPosition :: "array3 \<Rightarrow> MyCell \<Rightarrow> MyCell" where
  "SetPosition p c = c\<lparr>base := (base c)\<lparr>position := p\<rparr>\<rparr>"

definition SetCanDivide :: "bool \<Rightarrow> MyCell \<Rightarrow> MyCell" where
  "SetCanDivide d c = c\<lparr>can_divide := d\<rparr>"

definition GetCanDivide :: "MyCell \<Rightarrow> bool" where
  "GetCanDivide c = can_divide c"

definition SetCellColor :: "32 word \<Rightarrow> MyCell \<Rightarrow> MyCell" where
  "SetCellColor v c = c\<lparr>cell_color := v\<rparr>"

definition GetCellColor :: "MyCell \<Rightarrow> 32 word" where
  "GetCellColor c = cell_color c"

subsection \<open>The library\<close>

text \<open>
  What boundaries.h calls in BioDynaMo and does not define is a parameter of the model: a
  record of functions over the base \<^verbatim>\<open>Cell\<close>, a division event of type \<open>'e\<close> and the library's
  own state \<open>'w\<close> (random generator, time step, private members). Every theorem below holds
  for every such record.
  \<^item> \<open>lib_ChangeVolume\<close>: \<^verbatim>\<open>Cell::ChangeVolume(speed)\<close>;
  \<^item> \<open>lib_DivisionEvent\<close>: the \<^verbatim>\<open>CellDivisionEvent\<close> that \<^verbatim>\<open>Cell::Divide()\<close> draws;
  \<^item> \<open>lib_Cell_division\<close>: the base constructor \<^verbatim>\<open>Base(event, mother)\<close>, which receives the
    mother by pointer: it returns the daughter's base and the mother's base;
  \<^item> \<open>lib_EventHandler\<close>: \<^verbatim>\<open>Base::EventHandler(event, daughter)\<close> on the mother: it returns the
    mother's base and the daughter's base;
  \<^item> \<open>lib_Cell_default\<close>: the data members of a \<^verbatim>\<open>Cell\<close> before a constructor's own
    assignments;
  \<^item> \<open>lib_Uniform\<close>: \<^verbatim>\<open>Random::Uniform(low, high)\<close>.
\<close>

record ('e, 'w) library =
  lib_ChangeVolume :: "double \<Rightarrow> Cell \<Rightarrow> 'w \<Rightarrow> Cell \<times> 'w"
  lib_DivisionEvent :: "'w \<Rightarrow> 'e \<times> 'w"
  lib_Cell_division :: "'e \<Rightarrow> Cell \<Rightarrow> Cell \<times> Cell"
  lib_EventHandler :: "'e \<Rightarrow> Cell \<Rightarrow> Cell \<Rightarrow> Cell \<times> Cell"
  lib_Cell_default :: Cell
  lib_Uniform :: "double \<Rightarrow> double \<Rightarrow> 'w \<Rightarrow> double \<times> 'w"

subsection \<open>Constructors and event handler of MyCell (lines 46 to 63)\<close>

text \<open>
  Line 47: \<^verbatim>\<open>Base(position)\<close> stores the position in the base; the body sets the colour to 0
  and the flag to true.
\<close>

definition MyCellExt_position :: "('e, 'w) library \<Rightarrow> array3 \<Rightarrow> MyCell" where
  "MyCellExt_position L p =
     \<lparr>base = (lib_Cell_default L)\<lparr>position := p\<rparr>, can_divide = True, cell_color = 0\<rparr>"

text \<open>
  Lines 53 to 57: the base constructor runs first, on the event and the mother; the body then
  copies the two added members from the mother. The result is the daughter and the mother.
\<close>

definition MyCellExt_division :: "('e, 'w) library \<Rightarrow> 'e \<Rightarrow> MyCell \<Rightarrow> MyCell \<times> MyCell" where
  "MyCellExt_division L event mother =
     (let (b, mb) = lib_Cell_division L event (base mother);
          mother1 = mother\<lparr>base := mb\<rparr>
      in (\<lparr>base = b, can_divide = can_divide mother1, cell_color = cell_color mother1\<rparr>, mother1))"

text \<open>Lines 60 to 63: the handler of the mother only calls the handler of the base.\<close>

definition EventHandler :: "('e, 'w) library \<Rightarrow> 'e \<Rightarrow> MyCell \<Rightarrow> MyCell \<Rightarrow> MyCell \<times> MyCell" where
  "EventHandler L event this daughter =
     (let (tb, db) = lib_EventHandler L event (base this) (base daughter)
      in (this\<lparr>base := tb\<rparr>, daughter\<lparr>base := db\<rparr>))"

subsection \<open>The state of one call of the behaviour\<close>

text \<open>
  \<^verbatim>\<open>Run\<close> receives a pointer to the cell and reaches the rest of the simulation through it.
  The state of a call is the cell pointed to, the agents created during the call (a daughter
  is referred to by its index in this list), the library's state, and a log of the method
  calls made on agents, in the order of the source.
\<close>

datatype agent_ref = This | New nat

datatype method_call =
    CallGetDiameter
  | CallChangeVolume double
  | CallGetCanDivide
  | CallDivide
  | CallGetCellColor
  | CallSetCellColor "32 word"
  | CallSetCanDivide bool
  | CallGetPosition
  | CallSetPosition array3

record 'w run_state =
  cell :: MyCell
  new_agents :: "MyCell list"
  calls :: "(agent_ref \<times> method_call) list"
  lib :: 'w

definition start :: "MyCell \<Rightarrow> 'w \<Rightarrow> 'w run_state" where
  "start c w = \<lparr>cell = c, new_agents = [], calls = [], lib = w\<rparr>"

definition called :: "agent_ref \<Rightarrow> method_call \<Rightarrow> 'w run_state \<Rightarrow> 'w run_state" where
  "called r m s = s\<lparr>calls := calls s @ [(r, m)]\<rparr>"

definition on_new :: "nat \<Rightarrow> (MyCell \<Rightarrow> MyCell) \<Rightarrow> 'w run_state \<Rightarrow> 'w run_state" where
  "on_new i f s = s\<lparr>new_agents := (new_agents s)[i := f (new_agents s ! i)]\<rparr>"

text \<open>
  Modelled from the spec: \<^verbatim>\<open>Cell::Divide()\<close> is declared in \<^verbatim>\<open>biodynamo.h\<close>, which is not
  among the sources. By section 4.1 it constructs exactly one daughter from the mother, with
  the division constructor of the agent type, appends it to the store and leaves the mother
  in place, mutated by the interaction model; the mother's event handler runs on the new
  daughter. It returns the reference to the daughter.
\<close>

definition Divide :: "('e, 'w) library \<Rightarrow> 'w run_state \<Rightarrow> nat \<times> 'w run_state" where
  "Divide L s =
     (let (event, w) = lib_DivisionEvent L (lib s);
          (daughter, mother1) = MyCellExt_division L event (cell s);
          (mother2, daughter2) = EventHandler L event mother1 daughter
      in (length (new_agents s),
          called This CallDivide
            (s\<lparr>cell := mother2, new_agents := new_agents s @ [daughter2], lib := w\<rparr>)))"

text \<open>
  \<^verbatim>\<open>Cell::ChangeVolume(speed)\<close> on the cell of the call: the library's function on the base
  and on the library's state.
\<close>

definition ChangeVolume :: "('e, 'w) library \<Rightarrow> double \<Rightarrow> 'w run_state \<Rightarrow> 'w run_state" where
  "ChangeVolume L speed s =
     (let (b, w) = lib_ChangeVolume L speed (base (cell s)) (lib s)
      in called This (CallChangeVolume speed) (s\<lparr>cell := (cell s)\<lparr>base := b\<rparr>, lib := w\<rparr>))"

subsection \<open>GrowthModule::Run (lines 90 to 125)\<close>

text \<open>Lines 91 to 101: grow below diameter 8, else divide if the cell can.\<close>

definition grow_or_divide :: "('e, 'w) library \<Rightarrow> 'w run_state \<Rightarrow> 'w run_state" where
  "grow_or_divide L s0 =
     (let s1 = called This CallGetDiameter s0 in
      if GetDiameter (cell s1) < 8 then ChangeVolume L 300 s1
      else
        (let s2 = called This CallGetCanDivide s1 in
         if GetCanDivide (cell s2) then
           (let (daughter, s3) = Divide L s2;
                s4 = called This CallGetCellColor s3;
                v = GetCellColor (cell s4);
                s5 = called (New daughter) (CallSetCellColor v) (on_new daughter (SetCellColor v) s4);
                s6 = called (New daughter) (CallSetCanDivide True) (on_new daughter (SetCanDivide True) s5)
            in s6)
         else s2))"

text \<open>
  Lines 104 to 124: the local array \<^verbatim>\<open>coord\<close> and the flag \<^verbatim>\<open>update_position\<close> go through
  the test of x and then the test of y; the position is written only when the flag is set.
\<close>

definition check_x :: "array3 \<times> bool \<Rightarrow> array3 \<times> bool" where
  "check_x v =
     (let (coord, update_position) = v in
      if at0 coord > x_max - 0.01 then (set0 (x_max - 0.01) coord, True)
      else if at0 coord < x_min + 0.01 then (set0 (x_max + 0.01) coord, True)
      else (coord, update_position))"

definition check_y :: "array3 \<times> bool \<Rightarrow> array3 \<times> bool" where
  "check_y v =
     (let (coord, update_position) = v in
      if at1 coord > y_max - 0.01 then (set1 (y_max - 0.01) coord, True)
      else if at1 coord < y_min + 0.01 then (set1 (x_max + 0.01) coord, True)
      else (coord, update_position))"

definition bound_position :: "'w run_state \<Rightarrow> 'w run_state" where
  "bound_position s0 =
     (let s1 = called This CallGetPosition s0;
          (coord, update_position) = check_y (check_x (GetPosition (cell s1), False))
      in if update_position
         then called This (CallSetPosition coord) (s1\<lparr>cell := SetPosition coord (cell s1)\<rparr>)
         else s1)"

definition Run :: "('e, 'w) library \<Rightarrow> 'w run_state \<Rightarrow> 'w run_state" where
  "Run L s = bound_position (grow_or_divide L s)"

subsection \<open>Simulate (lines 139 to 181)\<close>

text \<open>
  Modelled from the spec: \<^verbatim>\<open>Param\<close>, the resource manager and the scheduler are declared in
  \<^verbatim>\<open>biodynamo.h\<close>, which is not among the sources. Of the parameters the record has the four
  that \<^verbatim>\<open>set_param\<close> assigns; the resource manager is the list of agents with the size
  reserved for it; the scheduler belongs to the library and is not run: the model records the
  number of steps each call of \<^verbatim>\<open>Scheduler::Simulate\<close> asks for.
\<close>

record Param =
  bound_space :: bool
  min_bound :: double
  max_bound :: double
  run_mechanical_interactions :: bool

record 'w simulation =
  param :: Param
  rm :: "MyCell list"
  reserved :: nat
  random :: 'w
  scheduler_steps :: "int list"
  cout :: "string list"

definition set_param :: "Param \<Rightarrow> Param" where
  "set_param p =
     p\<lparr>bound_space := True,
       min_bound := - (simulation_cube_dim / 2),
       max_bound := simulation_cube_dim / 2,
       run_mechanical_interactions := True\<rparr>"

text \<open>The loop of lines 159 to 173, from the index \<open>i\<close> on.\<close>

function create_cells :: "('e, 'w) library \<Rightarrow> nat \<Rightarrow> 'w simulation \<Rightarrow> 'w simulation" where
  "create_cells L i sim =
     (if i < num_cells then
        (let (x_coord, w1) = lib_Uniform L x_min x_max (random sim);
             (y_coord, w2) = lib_Uniform L y_min y_max w1;
             z_coord = z_pos_init;
             cell0 = MyCellExt_position L (x_coord, y_coord, z_coord);
             cell1 = SetDiameter 6 cell0;
             cell2 = SetAdherence 0.0001 cell1;
             cell3 = SetMass 0.1 cell2;
             cell4 = AddBiologyModule GrowthModule cell3
         in create_cells L (Suc i) (sim\<lparr>rm := rm sim @ [cell4], random := w2\<rparr>))
      else sim)"
  by pat_completeness auto
termination
  by (relation "measure (\<lambda>(L, i, sim). num_cells - i)") auto

definition Simulate :: "('e, 'w) library \<Rightarrow> Param \<Rightarrow> 'w \<Rightarrow> int \<times> 'w simulation" where
  "Simulate L p w =
     (let sim0 = \<lparr>param = set_param p, rm = [], reserved = 0, random = w,
                  scheduler_steps = [], cout = []\<rparr>;
          sim1 = sim0\<lparr>reserved := num_cells\<rparr>;
          sim2 = create_cells L 0 sim1;
          sim3 = sim2\<lparr>scheduler_steps := scheduler_steps sim2 @ [simulation_steps]\<rparr>;
          sim4 = sim3\<lparr>cout := cout sim3 @ [''Simulation completed successfully!'']\<rparr>
      in (0, sim4))"

subsection \<open>A small interaction model for concrete instances\<close>

text \<open>
  A library to evaluate the model with: a volume change adds 1 to the diameter, a division
  halves the mother's diameter, moves her by 1 along x and z and places the daughter at her
  old position, and the random source returns the midpoint of its interval.
\<close>

definition test_library :: "(unit, nat) library" where
  "test_library =
     \<lparr>lib_ChangeVolume = (\<lambda>speed b w. (b\<lparr>diameter := diameter b + 1\<rparr>, w)),
      lib_DivisionEvent = (\<lambda>w. ((), Suc w)),
      lib_Cell_division = (\<lambda>event b.
         (b\<lparr>diameter := diameter b / 2\<rparr>,
          b\<lparr>diameter := diameter b / 2,
            position := (at0 (position b) + 1, at1 (position b), at2 (position b) + 1)\<rparr>)),
      lib_EventHandler = (\<lambda>event mother daughter. (mother, daughter)),
      lib_Cell_default =
         \<lparr>position = (0, 0, 0), diameter = 10, adherence = 0, mass = 1, biology_modules = []\<rparr>,
      lib_Uniform = (\<lambda>low high w. ((low + high) / 2, Suc w))\<rparr>"

definition test_cell :: "array3 \<Rightarrow> double \<Rightarrow> bool \<Rightarrow> 32 word \<Rightarrow> MyCell" where
  "test_cell p d cd col =
     \<lparr>base = \<lparr>position = p, diameter = d, adherence = 0.0001, mass = 0.1,
              biology_modules = [GrowthModule]\<rparr>,
      can_divide = cd, cell_color = col\<rparr>"

definition test_param :: Param where
  "test_param = \<lparr>bound_space = False, min_bound = 0, max_bound = 0,
     run_mechanical_interactions = False\<rparr>"

subsection \<open>The initial agents in the words of the specification\<close>

text \<open>
  Section 8 places 10 agents of diameter 6 in the domain \<open>[-75, 75]\<close> for x and y, and section
  6 draws each initial coordinate from the uniform random source. \<open>spec_initial_xy L n w\<close> is
  the list of the \<open>n\<close> pairs drawn in turn, x before y, from the source in the state \<open>w\<close>.
\<close>

primrec spec_initial_xy :: "('e, 'w) library \<Rightarrow> nat \<Rightarrow> 'w \<Rightarrow> (double \<times> double) list" where
  "spec_initial_xy L 0 w = []"
| "spec_initial_xy L (Suc n) w =
     (let (x, w1) = lib_Uniform L (- 75) 75 w;
          (y, w2) = lib_Uniform L (- 75) 75 w1
      in (x, y) # spec_initial_xy L n w2)"

text \<open>The cell that one turn of the loop of lines 159 to 173 stores for the drawn x and y.\<close>

definition new_cell :: "('e, 'w) library \<Rightarrow> double \<times> double \<Rightarrow> MyCell" where
  "new_cell L xy =
     \<lparr>base = (lib_Cell_default L)\<lparr>position := (fst xy, snd xy, - 2250), diameter := 6,
         adherence := 0.0001, mass := 0.1,
         biology_modules := biology_modules (lib_Cell_default L) @ [GrowthModule]\<rparr>,
      can_divide = True, cell_color = 0\<rparr>"

subsection \<open>Reading the log\<close>

fun is_position_write :: "agent_ref \<times> method_call \<Rightarrow> bool" where
  "is_position_write (r, CallSetPosition p) = True"
| "is_position_write (r, m) = False"

fun is_position_call :: "agent_ref \<times> method_call \<Rightarrow> bool" where
  "is_position_call (r, CallSetPosition p) = True"
| "is_position_call (r, CallGetPosition) = True"
| "is_position_call (r, m) = False"

text \<open>The same call with the colour \<open>k\<close> where a colour is passed.\<close>

fun recolor :: "32 word \<Rightarrow> agent_ref \<times> method_call \<Rightarrow> agent_ref \<times> method_call" where
  "recolor k (r, CallSetCellColor v) = (r, CallSetCellColor k)"
| "recolor k (r, m) = (r, m)"

section \<open>Properties of GrowthModule::Run\<close>

subsection \<open>The two halves of Run\<close>

lemma called_simps:
  "cell (called r m s) = cell s"
  "new_agents (called r m s) = new_agents s"
  "lib (called r m s) = lib s"
  "calls (called r m s) = calls s @ [(r, m)]"
  by (simp_all add: called_def)

lemma check_xy:
  "check_y (check_x ((x, y, z), False)) =
     ((if x > x_max - 0.01 then x_max - 0.01 else if x < x_min + 0.01 then x_max + 0.01 else x,
       if y > y_max - 0.01 then y_max - 0.01 else if y < y_min + 0.01 then x_max + 0.01 else y,
       z),
      x > x_max - 0.01 \<or> x < x_min + 0.01 \<or> y > y_max - 0.01 \<or> y < y_min + 0.01)"
  by (simp add: check_x_def check_y_def)

lemma bound_position_cell:
  "cell (bound_position s) =
     (let (coord, update_position) = check_y (check_x (GetPosition (cell s), False))
      in if update_position then SetPosition coord (cell s) else cell s)"
  by (simp add: bound_position_def called_simps Let_def split_def)

lemma bound_position_frame:
  "new_agents (bound_position s) = new_agents s"
  "lib (bound_position s) = lib s"
  by (simp_all add: bound_position_def called_simps Let_def split_def)

lemma bound_position_calls:
  "calls (bound_position s) =
     (let (coord, update_position) = check_y (check_x (GetPosition (cell s), False))
      in calls s @ (This, CallGetPosition) #
           (if update_position then [(This, CallSetPosition coord)] else []))"
  by (simp add: bound_position_def called_simps Let_def split_def)

text \<open>The first half, branch by branch, on the state at the start of a call.\<close>

lemma grow_or_divide_grows:
  assumes "GetDiameter c < 8"
  shows "grow_or_divide L (start c w) =
     \<lparr>cell = c\<lparr>base := fst (lib_ChangeVolume L 300 (base c) w)\<rparr>, new_agents = [],
      calls = [(This, CallGetDiameter), (This, CallChangeVolume 300)],
      lib = snd (lib_ChangeVolume L 300 (base c) w)\<rparr>"
  using assms
  by (simp add: grow_or_divide_def start_def called_def ChangeVolume_def Let_def split_def)

lemma grow_or_divide_rests:
  assumes "\<not> GetDiameter c < 8" "\<not> GetCanDivide c"
  shows "grow_or_divide L (start c w) =
     \<lparr>cell = c, new_agents = [],
      calls = [(This, CallGetDiameter), (This, CallGetCanDivide)], lib = w\<rparr>"
  using assms
  by (simp add: grow_or_divide_def start_def called_def Let_def)

lemma grow_or_divide_divides:
  assumes "\<not> GetDiameter c < 8" "GetCanDivide c"
  shows "grow_or_divide L (start c w) =
     (let (event, w1) = lib_DivisionEvent L w;
          (daughter, mother1) = MyCellExt_division L event c;
          (mother2, daughter2) = EventHandler L event mother1 daughter
      in \<lparr>cell = mother2,
          new_agents = [SetCanDivide True (SetCellColor (GetCellColor c) daughter2)],
          calls = [(This, CallGetDiameter), (This, CallGetCanDivide), (This, CallDivide),
                   (This, CallGetCellColor), (New 0, CallSetCellColor (GetCellColor c)),
                   (New 0, CallSetCanDivide True)],
          lib = w1\<rparr>)"
  using assms
  by (simp add: grow_or_divide_def start_def called_def on_new_def Divide_def Let_def split_def
      MyCellExt_division_def EventHandler_def GetCellColor_def)

lemma grow_or_divide_cell:
  "cell (grow_or_divide L (start c w)) =
     (if GetDiameter c < 8 then c\<lparr>base := fst (lib_ChangeVolume L 300 (base c) w)\<rparr>
      else if GetCanDivide c then cell (snd (Divide L (start c w)))
      else c)"
proof -
  consider (grow) "GetDiameter c < 8"
    | (divide) "\<not> GetDiameter c < 8" "GetCanDivide c"
    | (rest) "\<not> GetDiameter c < 8" "\<not> GetCanDivide c"
    by blast
  then show ?thesis
  proof cases
    case grow
    then show ?thesis by (simp add: grow_or_divide_grows)
  next
    case divide
    then show ?thesis
      by (simp add: grow_or_divide_divides Let_def split_def)
         (simp add: Divide_def start_def called_def Let_def split_def)
  next
    case rest
    then show ?thesis by (simp add: grow_or_divide_rests)
  qed
qed

lemma grow_or_divide_no_position_call:
  "list_all (\<lambda>m. \<not> is_position_call m) (calls (grow_or_divide L (start c w)))"
proof (cases "GetDiameter c < 8")
  case True
  then show ?thesis by (simp add: grow_or_divide_grows)
next
  case False
  then show ?thesis
    by (cases "GetCanDivide c")
       (simp_all add: grow_or_divide_divides grow_or_divide_rests Let_def split_def)
qed

lemma no_position_write:
  "list_all (\<lambda>m. \<not> is_position_call m) xs \<Longrightarrow> filter is_position_write xs = []"
  by (induction xs) (auto elim: is_position_write.elims)

subsection \<open>The boundary rule\<close>

text \<open>
  C1. One call of the behaviour updates the position coordinate by coordinate, with the margin
  0.01. With \<open>(x, y, z)\<close> the position that line 104 reads (the position of the cell after the
  growth or division of lines 91 to 101): x above \<open>x_max - 0.01\<close> becomes \<open>x_max - 0.01\<close>, else
  x below \<open>x_min + 0.01\<close> becomes \<open>x_max + 0.01\<close>; independently y above \<open>y_max - 0.01\<close>
  becomes \<open>y_max - 0.01\<close>, else y below \<open>y_min + 0.01\<close> becomes \<open>x_max + 0.01\<close> (the upper bound
  of x); a coordinate in neither case, and z, stay as they are.
\<close>

theorem Run_position_rule:
  "GetPosition (cell (Run L (start c w))) =
     (case GetPosition (cell (grow_or_divide L (start c w))) of (x, y, z) \<Rightarrow>
        (if x > x_max - 0.01 then x_max - 0.01
         else if x < x_min + 0.01 then x_max + 0.01 else x,
         if y > y_max - 0.01 then y_max - 0.01
         else if y < y_min + 0.01 then x_max + 0.01 else y,
         z))"
proof -
  obtain x y z where p: "GetPosition (cell (grow_or_divide L (start c w))) = (x, y, z)"
    by (cases "GetPosition (cell (grow_or_divide L (start c w)))")
  show ?thesis
    unfolding Run_def bound_position_cell p check_xy
    using p by (auto simp: GetPosition_def SetPosition_def)
qed

subsection \<open>Growth and division\<close>

text \<open>
  C2. For a cell of diameter at least 8 that can divide, one call of the behaviour creates
  exactly one daughter; the daughter can divide and has the colour that the mother had when
  the call began.
\<close>

theorem Run_divides:
  "8 \<le> GetDiameter c \<Longrightarrow> GetCanDivide c \<Longrightarrow>
     \<exists>d. new_agents (Run L (start c w)) = [d] \<and> GetCanDivide d
        \<and> GetCellColor d = GetCellColor c"
  by (simp add: Run_def bound_position_frame grow_or_divide_divides Let_def split_def
      SetCanDivide_def SetCellColor_def GetCanDivide_def GetCellColor_def)

theorem Run_divides_witness:
  "8 \<le> GetDiameter (test_cell (80, - 80, 7) 9 True 5)
   \<and> GetCanDivide (test_cell (80, - 80, 7) 9 True 5)
   \<and> (\<exists>d. new_agents (Run test_library (start (test_cell (80, - 80, 7) 9 True 5) 0)) = [d]
        \<and> GetCanDivide d \<and> GetCellColor d = GetCellColor (test_cell (80, - 80, 7) 9 True 5))"
proof -
  have d: "8 \<le> GetDiameter (test_cell (80, - 80, 7) 9 True 5)"
    by (simp add: test_cell_def GetDiameter_def)
  have g: "GetCanDivide (test_cell (80, - 80, 7) 9 True 5)"
    by (simp add: test_cell_def GetCanDivide_def)
  show ?thesis
    using d g Run_divides [OF d g, of test_library 0] by simp
qed

text \<open>
  C3. For a cell of diameter below 8, one call of the behaviour asks for a volume change of
  exactly 300 and makes no division: apart from a write of the position, the calls of the
  behaviour are the reading of the diameter, \<^verbatim>\<open>ChangeVolume(300)\<close> and the reading of the
  position, so that neither the flag is read nor \<^verbatim>\<open>Divide\<close> called; no agent is created, and
  the cell is the one the library's volume change returns for the speed 300.
\<close>

theorem Run_grows:
  "GetDiameter c < 8 \<Longrightarrow>
     filter (\<lambda>m. \<not> is_position_write m) (calls (Run L (start c w))) =
       [(This, CallGetDiameter), (This, CallChangeVolume 300), (This, CallGetPosition)]
     \<and> new_agents (Run L (start c w)) = []
     \<and> cell (grow_or_divide L (start c w)) =
         c\<lparr>base := fst (lib_ChangeVolume L 300 (base c) w)\<rparr>"
  by (simp add: Run_def bound_position_frame bound_position_calls grow_or_divide_grows
      Let_def split_def)

theorem Run_grows_witness:
  "GetDiameter (test_cell (80, - 80, 7) 6 True 5) < 8
   \<and> filter (\<lambda>m. \<not> is_position_write m)
        (calls (Run test_library (start (test_cell (80, - 80, 7) 6 True 5) 0))) =
       [(This, CallGetDiameter), (This, CallChangeVolume 300), (This, CallGetPosition)]
   \<and> new_agents (Run test_library (start (test_cell (80, - 80, 7) 6 True 5) 0)) = []
   \<and> cell (grow_or_divide test_library (start (test_cell (80, - 80, 7) 6 True 5) 0)) =
       test_cell (80, - 80, 7) 7 True 5"
proof -
  have d: "GetDiameter (test_cell (80, - 80, 7) 6 True 5) < 8"
    by (simp add: test_cell_def GetDiameter_def)
  show ?thesis
    using d Run_grows [OF d, of test_library 0]
    by (simp add: test_cell_def test_library_def)
qed

text \<open>
  C4. For a cell of diameter at least 8 that cannot divide, one call of the behaviour creates
  no daughter and leaves the flag and the colour of the cell as they were; apart from a write
  of the position, its calls are the readings of the diameter, of the flag and of the position.
\<close>

theorem Run_rests:
  "8 \<le> GetDiameter c \<Longrightarrow> \<not> GetCanDivide c \<Longrightarrow>
     new_agents (Run L (start c w)) = []
     \<and> GetCanDivide (cell (Run L (start c w))) = GetCanDivide c
     \<and> GetCellColor (cell (Run L (start c w))) = GetCellColor c
     \<and> filter (\<lambda>m. \<not> is_position_write m) (calls (Run L (start c w))) =
       [(This, CallGetDiameter), (This, CallGetCanDivide), (This, CallGetPosition)]"
  by (simp add: Run_def bound_position_frame bound_position_calls bound_position_cell
      grow_or_divide_rests Let_def split_def
      SetPosition_def GetCanDivide_def GetCellColor_def)

theorem Run_rests_witness:
  "8 \<le> GetDiameter (test_cell (80, - 80, 7) 8 False 5)
   \<and> \<not> GetCanDivide (test_cell (80, - 80, 7) 8 False 5)
   \<and> new_agents (Run test_library (start (test_cell (80, - 80, 7) 8 False 5) 0)) = []
   \<and> GetCanDivide (cell (Run test_library (start (test_cell (80, - 80, 7) 8 False 5) 0))) = False
   \<and> GetCellColor (cell (Run test_library (start (test_cell (80, - 80, 7) 8 False 5) 0))) = 5
   \<and> filter (\<lambda>m. \<not> is_position_write m)
        (calls (Run test_library (start (test_cell (80, - 80, 7) 8 False 5) 0))) =
       [(This, CallGetDiameter), (This, CallGetCanDivide), (This, CallGetPosition)]"
proof -
  have d: "8 \<le> GetDiameter (test_cell (80, - 80, 7) 8 False 5)"
    by (simp add: test_cell_def GetDiameter_def)
  have g: "\<not> GetCanDivide (test_cell (80, - 80, 7) 8 False 5)"
    by (simp add: test_cell_def GetCanDivide_def)
  show ?thesis
    using d g Run_rests [OF d g, of test_library 0]
    by (simp add: test_cell_def GetCanDivide_def GetCellColor_def)
qed

subsection \<open>What the boundary rule leaves alone\<close>

text \<open>
  C5. The boundary rule of one call of the behaviour never changes the z coordinate, whatever
  its value: the cell ends with the z that line 104 reads. When the x and y read there lie
  strictly between \<open>x_min + 0.01\<close> and \<open>x_max - 0.01\<close> and between \<open>y_min + 0.01\<close> and
  \<open>y_max - 0.01\<close>, the call makes no write of a position at all and leaves the cell as the
  growth or division step left it. The cell that line 104 reads is the agent of the call
  itself when its diameter is at least 8 and it cannot divide (no function of the library is
  called), the agent with the base that the library's \<^verbatim>\<open>ChangeVolume(300)\<close> returns when its
  diameter is below 8, and the mother as the library's \<^verbatim>\<open>Divide()\<close> leaves her when it
  divides. Hence, whenever that step leaves the position of the agent where it was at the
  call, the whole call keeps the agent's z, and for an agent whose x and y are strictly
  inside it writes no position and leaves the position of the agent untouched.
\<close>

theorem Run_position_frame:
  "at2 (GetPosition (cell (Run L (start c w)))) =
     at2 (GetPosition (cell (grow_or_divide L (start c w))))
   \<and> (x_min + 0.01 < at0 (GetPosition (cell (grow_or_divide L (start c w))))
      \<and> at0 (GetPosition (cell (grow_or_divide L (start c w)))) < x_max - 0.01
      \<and> y_min + 0.01 < at1 (GetPosition (cell (grow_or_divide L (start c w))))
      \<and> at1 (GetPosition (cell (grow_or_divide L (start c w)))) < y_max - 0.01
      \<longrightarrow> filter is_position_write (calls (Run L (start c w))) = []
        \<and> cell (Run L (start c w)) = cell (grow_or_divide L (start c w)))
   \<and> cell (grow_or_divide L (start c w)) =
       (if GetDiameter c < 8 then c\<lparr>base := fst (lib_ChangeVolume L 300 (base c) w)\<rparr>
        else if GetCanDivide c then cell (snd (Divide L (start c w)))
        else c)
   \<and> (GetPosition (cell (grow_or_divide L (start c w))) = GetPosition c
      \<longrightarrow> at2 (GetPosition (cell (Run L (start c w)))) = at2 (GetPosition c)
        \<and> (x_min + 0.01 < at0 (GetPosition c) \<and> at0 (GetPosition c) < x_max - 0.01
           \<and> y_min + 0.01 < at1 (GetPosition c) \<and> at1 (GetPosition c) < y_max - 0.01
           \<longrightarrow> filter is_position_write (calls (Run L (start c w))) = []
             \<and> GetPosition (cell (Run L (start c w))) = GetPosition c))"
proof -
  obtain x y z where p: "GetPosition (cell (grow_or_divide L (start c w))) = (x, y, z)"
    by (cases "GetPosition (cell (grow_or_divide L (start c w)))")
  have z: "at2 (GetPosition (cell (Run L (start c w)))) = z"
    unfolding Run_def bound_position_cell p check_xy
    using p by (auto simp: GetPosition_def SetPosition_def)
  have w: "filter is_position_write (calls (grow_or_divide L (start c w))) = []"
    by (rule no_position_write) (rule grow_or_divide_no_position_call)
  have inside: "filter is_position_write (calls (Run L (start c w))) = []
      \<and> cell (Run L (start c w)) = cell (grow_or_divide L (start c w))"
    if "x_min + 0.01 < x" "x < x_max - 0.01" "y_min + 0.01 < y" "y < y_max - 0.01"
    using that w
    unfolding Run_def bound_position_cell bound_position_calls p check_xy
    by simp
  have one: "at2 (GetPosition (cell (Run L (start c w)))) =
     at2 (GetPosition (cell (grow_or_divide L (start c w))))"
    using z by (simp add: p)
  have two: "x_min + 0.01 < at0 (GetPosition (cell (grow_or_divide L (start c w))))
      \<and> at0 (GetPosition (cell (grow_or_divide L (start c w)))) < x_max - 0.01
      \<and> y_min + 0.01 < at1 (GetPosition (cell (grow_or_divide L (start c w))))
      \<and> at1 (GetPosition (cell (grow_or_divide L (start c w)))) < y_max - 0.01
      \<longrightarrow> filter is_position_write (calls (Run L (start c w))) = []
        \<and> cell (Run L (start c w)) = cell (grow_or_divide L (start c w))"
    using inside by (simp add: p)
  have four: "at2 (GetPosition (cell (Run L (start c w)))) = at2 (GetPosition c)
        \<and> (x_min + 0.01 < at0 (GetPosition c) \<and> at0 (GetPosition c) < x_max - 0.01
           \<and> y_min + 0.01 < at1 (GetPosition c) \<and> at1 (GetPosition c) < y_max - 0.01
           \<longrightarrow> filter is_position_write (calls (Run L (start c w))) = []
             \<and> GetPosition (cell (Run L (start c w))) = GetPosition c)"
    if q: "GetPosition (cell (grow_or_divide L (start c w))) = GetPosition c"
    using one two by (simp add: q)
  show ?thesis
    using one two four grow_or_divide_cell [of L c w] by blast
qed

text \<open>
  Two instances with the small interaction model, both at \<open>(10, -20, 5000)\<close> with z far outside
  any range: a growing cell of diameter 6, whose volume change leaves the position alone, and
  a cell of diameter 9 that cannot divide.
\<close>

theorem Run_position_frame_witness:
  "x_min + 0.01 <
     at0 (GetPosition (cell (grow_or_divide test_library (start (test_cell (10, - 20, 5000) 6 True 3) 0))))
   \<and> at0 (GetPosition (cell (grow_or_divide test_library (start (test_cell (10, - 20, 5000) 6 True 3) 0))))
       < x_max - 0.01
   \<and> y_min + 0.01 <
       at1 (GetPosition (cell (grow_or_divide test_library (start (test_cell (10, - 20, 5000) 6 True 3) 0))))
   \<and> at1 (GetPosition (cell (grow_or_divide test_library (start (test_cell (10, - 20, 5000) 6 True 3) 0))))
       < y_max - 0.01
   \<and> GetPosition (cell (grow_or_divide test_library (start (test_cell (10, - 20, 5000) 6 True 3) 0))) =
       GetPosition (test_cell (10, - 20, 5000) 6 True 3)
   \<and> x_min + 0.01 < at0 (GetPosition (test_cell (10, - 20, 5000) 6 True 3))
   \<and> at0 (GetPosition (test_cell (10, - 20, 5000) 6 True 3)) < x_max - 0.01
   \<and> y_min + 0.01 < at1 (GetPosition (test_cell (10, - 20, 5000) 6 True 3))
   \<and> at1 (GetPosition (test_cell (10, - 20, 5000) 6 True 3)) < y_max - 0.01
   \<and> at2 (GetPosition (test_cell (10, - 20, 5000) 6 True 3)) = 5000
   \<and> at2 (GetPosition (cell (Run test_library (start (test_cell (10, - 20, 5000) 6 True 3) 0)))) = 5000
   \<and> filter is_position_write
        (calls (Run test_library (start (test_cell (10, - 20, 5000) 6 True 3) 0))) = []
   \<and> GetPosition (cell (Run test_library (start (test_cell (10, - 20, 5000) 6 True 3) 0))) =
       (10, - 20, 5000)
   \<and> cell (Run test_library (start (test_cell (10, - 20, 5000) 6 True 3) 0)) =
       test_cell (10, - 20, 5000) 7 True 3
   \<and> cell (grow_or_divide test_library (start (test_cell (10, - 20, 5000) 9 False 3) 0)) =
       test_cell (10, - 20, 5000) 9 False 3
   \<and> at2 (GetPosition (cell (Run test_library (start (test_cell (10, - 20, 5000) 9 False 3) 0)))) = 5000
   \<and> filter is_position_write
        (calls (Run test_library (start (test_cell (10, - 20, 5000) 9 False 3) 0))) = []
   \<and> cell (Run test_library (start (test_cell (10, - 20, 5000) 9 False 3) 0)) =
       test_cell (10, - 20, 5000) 9 False 3"
proof -
  have d: "GetDiameter (test_cell (10, - 20, 5000) 6 True 3) < 8"
    by (simp add: test_cell_def GetDiameter_def)
  have s: "grow_or_divide test_library (start (test_cell (10, - 20, 5000) 6 True 3) 0) =
     \<lparr>cell = test_cell (10, - 20, 5000) 7 True 3, new_agents = [],
      calls = [(This, CallGetDiameter), (This, CallChangeVolume 300)], lib = 0\<rparr>"
    by (simp add: grow_or_divide_grows [OF d]) (simp add: test_library_def test_cell_def)
  have p: "GetPosition (test_cell (10, - 20, 5000) 6 True 3) = (10, - 20, 5000)"
    "GetPosition (test_cell (10, - 20, 5000) 7 True 3) = (10, - 20, 5000)"
    "GetPosition (test_cell (10, - 20, 5000) 9 False 3) = (10, - 20, 5000)"
    by (simp_all add: test_cell_def GetPosition_def)
  have d': "\<not> GetDiameter (test_cell (10, - 20, 5000) 9 False 3) < 8"
    by (simp add: test_cell_def GetDiameter_def)
  have g': "\<not> GetCanDivide (test_cell (10, - 20, 5000) 9 False 3)"
    by (simp add: test_cell_def GetCanDivide_def)
  have s': "grow_or_divide test_library (start (test_cell (10, - 20, 5000) 9 False 3) 0) =
     \<lparr>cell = test_cell (10, - 20, 5000) 9 False 3, new_agents = [],
      calls = [(This, CallGetDiameter), (This, CallGetCanDivide)], lib = 0\<rparr>"
    by (rule grow_or_divide_rests [OF d' g'])
  have a: "at2 (GetPosition (cell (Run test_library (start (test_cell (10, - 20, 5000) 6 True 3) 0)))) = 5000
    \<and> filter is_position_write
        (calls (Run test_library (start (test_cell (10, - 20, 5000) 6 True 3) 0))) = []
    \<and> cell (Run test_library (start (test_cell (10, - 20, 5000) 6 True 3) 0)) =
       test_cell (10, - 20, 5000) 7 True 3"
    using Run_position_frame [of test_library "test_cell (10, - 20, 5000) 6 True 3" 0]
    by (simp add: s p d x_min_def x_max_def y_min_def y_max_def x_range_def)
       (simp add: test_library_def test_cell_def GetPosition_def)
  have b: "at2 (GetPosition (cell (Run test_library (start (test_cell (10, - 20, 5000) 9 False 3) 0)))) = 5000
    \<and> filter is_position_write
        (calls (Run test_library (start (test_cell (10, - 20, 5000) 9 False 3) 0))) = []
    \<and> cell (Run test_library (start (test_cell (10, - 20, 5000) 9 False 3) 0)) =
       test_cell (10, - 20, 5000) 9 False 3"
    using Run_position_frame [of test_library "test_cell (10, - 20, 5000) 9 False 3" 0]
    by (simp add: s' p d' g' x_min_def x_max_def y_min_def y_max_def x_range_def)
  show ?thesis
    using a b by (simp add: s s' p x_min_def x_max_def y_min_def y_max_def x_range_def)
qed

text \<open>
  Without the condition on the first step the statement fails for a dividing cell, since the
  division of the library moves the mother before line 104 reads her position. With the small
  interaction model, which moves the mother by 1 along x and z: a mother at \<open>z = 5000\<close> ends
  the call at \<open>z = 5001\<close>; and a mother at \<open>(74.5, 0, 0)\<close>, strictly inside the margins when
  the call begins, is read at \<open>(75.5, 0, 1)\<close> and written back to \<open>(74.99, 0, 1)\<close>.
\<close>

theorem Run_position_frame_counterexample:
  "at2 (GetPosition (test_cell (10, - 20, 5000) 9 True 3)) = 5000
   \<and> at2 (GetPosition (cell (Run test_library (start (test_cell (10, - 20, 5000) 9 True 3) 0))))
       = 5001
   \<and> GetPosition (test_cell (74.5, 0, 0) 9 True 3) = (74.5, 0, 0)
   \<and> x_min + 0.01 < 74.5 \<and> 74.5 < x_max - 0.01 \<and> y_min + 0.01 < 0 \<and> 0 < y_max - 0.01
   \<and> filter is_position_write
        (calls (Run test_library (start (test_cell (74.5, 0, 0) 9 True 3) 0))) =
       [(This, CallSetPosition (74.99, 0, 1))]
   \<and> GetPosition (cell (Run test_library (start (test_cell (74.5, 0, 0) 9 True 3) 0))) =
       (74.99, 0, 1)"
  by (simp add: Run_def bound_position_def check_x_def check_y_def grow_or_divide_def
      Divide_def MyCellExt_division_def EventHandler_def called_def on_new_def start_def
      test_library_def test_cell_def GetDiameter_def GetCanDivide_def GetCellColor_def
      SetCellColor_def SetCanDivide_def GetPosition_def SetPosition_def
      x_min_def x_max_def y_min_def y_max_def x_range_def Let_def)

subsection \<open>Order of the two steps\<close>

text \<open>
  C6. In one call of the behaviour the growth or division step comes before the boundary
  rule: the log of the call is the log of that step, which holds no call on a position, then
  the reading of the position of the cell itself, then at most writes of the position of the
  cell itself. This holds in every branch of the first step. The agents created by the
  call are those the first step leaves, unchanged: the rule does not touch a daughter; and the
  cell differs from the cell after the first step in its position only, which is the result
  of the two tests on the position after the first step.
\<close>

theorem Run_order:
  "\<exists>post. calls (Run L (start c w)) =
       calls (grow_or_divide L (start c w)) @ [(This, CallGetPosition)] @ post
     \<and> list_all (\<lambda>m. \<not> is_position_call m) (calls (grow_or_divide L (start c w)))
     \<and> list_all (\<lambda>m. fst m = This \<and> is_position_write m) post
     \<and> new_agents (Run L (start c w)) = new_agents (grow_or_divide L (start c w))
     \<and> cell (Run L (start c w)) =
         SetPosition (GetPosition (cell (Run L (start c w)))) (cell (grow_or_divide L (start c w)))
     \<and> GetPosition (cell (Run L (start c w))) =
         fst (check_y (check_x (GetPosition (cell (grow_or_divide L (start c w))), False)))"
proof -
  obtain x y z where p: "GetPosition (cell (grow_or_divide L (start c w))) = (x, y, z)"
    by (cases "GetPosition (cell (grow_or_divide L (start c w)))")
  show ?thesis
    unfolding Run_def bound_position_calls bound_position_cell bound_position_frame p check_xy
    using grow_or_divide_no_position_call [of L c w] p
    by (auto simp: SetPosition_def GetPosition_def)
qed

subsection \<open>The colour tag\<close>

lemma bound_position_recolor:
  assumes "cell s' = SetCellColor k (cell s)"
    "new_agents s' = map (SetCellColor k) (new_agents s)"
    "calls s' = map (recolor k) (calls s)" "lib s' = lib s"
  shows "cell (bound_position s') = SetCellColor k (cell (bound_position s))
   \<and> new_agents (bound_position s') = map (SetCellColor k) (new_agents (bound_position s))
   \<and> calls (bound_position s') = map (recolor k) (calls (bound_position s))
   \<and> lib (bound_position s') = lib (bound_position s)"
proof -
  have p: "GetPosition (cell s') = GetPosition (cell s)"
    using assms(1) by (simp add: GetPosition_def SetCellColor_def)
  show ?thesis
    unfolding bound_position_cell bound_position_calls bound_position_frame p
    using assms by (simp add: Let_def split_def SetPosition_def SetCellColor_def)
qed

lemma grow_or_divide_recolor:
  "cell (grow_or_divide L (start (SetCellColor k c) w)) =
     SetCellColor k (cell (grow_or_divide L (start c w)))
   \<and> new_agents (grow_or_divide L (start (SetCellColor k c) w)) =
       map (SetCellColor k) (new_agents (grow_or_divide L (start c w)))
   \<and> calls (grow_or_divide L (start (SetCellColor k c) w)) =
       map (recolor k) (calls (grow_or_divide L (start c w)))
   \<and> lib (grow_or_divide L (start (SetCellColor k c) w)) = lib (grow_or_divide L (start c w))"
proof -
  have d: "GetDiameter (SetCellColor k c) = GetDiameter c"
    and g: "GetCanDivide (SetCellColor k c) = GetCanDivide c"
    and b: "base (SetCellColor k c) = base c"
    by (simp_all add: GetDiameter_def GetCanDivide_def SetCellColor_def)
  consider (grow) "GetDiameter c < 8"
    | (divide) "\<not> GetDiameter c < 8" "GetCanDivide c"
    | (rest) "\<not> GetDiameter c < 8" "\<not> GetCanDivide c"
    by blast
  then show ?thesis
  proof cases
    case grow
    then show ?thesis
      by (simp add: grow_or_divide_grows d b) (simp add: SetCellColor_def)
  next
    case divide
    then show ?thesis
      by (simp add: grow_or_divide_divides d g Let_def split_def)
         (simp add: MyCellExt_division_def EventHandler_def Let_def split_def
            SetCellColor_def SetCanDivide_def GetCellColor_def)
  next
    case rest
    then show ?thesis
      by (simp add: grow_or_divide_rests d g)
  qed
qed

text \<open>
  C7. The colour of a cell has no influence on what the behaviour does. Take any cell and the
  same cell with the colour \<open>k\<close>: one call on the second gives the state that the call on the
  first gives, with the colour \<open>k\<close> on the cell and on every daughter (each daughter has its
  own mother's colour); the calls are the same, in the same order and on the same agents, but
  for the colour handed to the daughter; the state of the library is the same.
\<close>

theorem Run_color_blind:
  "cell (Run L (start (SetCellColor k c) w)) = SetCellColor k (cell (Run L (start c w)))
   \<and> new_agents (Run L (start (SetCellColor k c) w)) =
       map (SetCellColor k) (new_agents (Run L (start c w)))
   \<and> calls (Run L (start (SetCellColor k c) w)) = map (recolor k) (calls (Run L (start c w)))
   \<and> lib (Run L (start (SetCellColor k c) w)) = lib (Run L (start c w))"
  unfolding Run_def
  using grow_or_divide_recolor [of L k c w]
  by (intro bound_position_recolor) simp_all

subsection \<open>A concrete call\<close>

text \<open>A dividing cell outside the range, evaluated with the small interaction model.\<close>

lemma Run_example_division:
  "Run test_library (start (test_cell (80, - 80, 7) 9 True 5) 0) =
     \<lparr>cell = test_cell (74.99, 75.01, 8) 4.5 True 5,
      new_agents = [test_cell (80, - 80, 7) 4.5 True 5],
      calls = [(This, CallGetDiameter), (This, CallGetCanDivide), (This, CallDivide),
               (This, CallGetCellColor), (New 0, CallSetCellColor 5),
               (New 0, CallSetCanDivide True), (This, CallGetPosition),
               (This, CallSetPosition (74.99, 75.01, 8))],
      lib = 1\<rparr>"
  by (simp add: Run_def bound_position_def check_x_def check_y_def grow_or_divide_def
      Divide_def MyCellExt_division_def EventHandler_def called_def on_new_def start_def
      test_library_def test_cell_def GetDiameter_def GetCanDivide_def GetCellColor_def
      SetCellColor_def SetCanDivide_def GetPosition_def SetPosition_def
      x_min_def x_max_def y_min_def y_max_def x_range_def Let_def)

section \<open>Properties of Simulate\<close>

lemma bounds: "x_min = - 75" "x_max = 75" "y_min = - 75" "y_max = 75" "z_pos_init = - 2250"
  by (simp_all add: x_min_def x_max_def y_min_def y_max_def x_range_def z_pos_init_def
      simulation_cube_dim_def)

declare create_cells.simps [simp del]

lemma create_cells_rm:
  "rm (create_cells L i sim) =
     rm sim @ map (new_cell L) (spec_initial_xy L (num_cells - i) (random sim))"
proof (induction L i sim rule: create_cells.induct)
  case (1 L i sim)
  show ?case
  proof (cases "i < num_cells")
    case True
    then have n: "num_cells - i = Suc (num_cells - Suc i)" by simp
    obtain x w1 where x: "lib_Uniform L (- 75) 75 (random sim) = (x, w1)"
      by (cases "lib_Uniform L (- 75) 75 (random sim)")
    obtain y w2 where y: "lib_Uniform L (- 75) 75 w1 = (y, w2)"
      by (cases "lib_Uniform L (- 75) 75 w1")
    show ?thesis
      using True "1.IH" [OF True, of "(x, w1)" x w1 "(y, w2)" y w2]
      by (subst create_cells.simps)
         (simp add: n bounds x y Let_def,
          simp add: new_cell_def MyCellExt_position_def SetDiameter_def SetAdherence_def
            SetMass_def AddBiologyModule_def)
  next
    case False
    then show ?thesis by (subst create_cells.simps) simp
  qed
qed

lemma create_cells_scheduler_steps:
  "scheduler_steps (create_cells L i sim) = scheduler_steps sim"
proof (induction L i sim rule: create_cells.induct)
  case (1 L i sim)
  show ?case
  proof (cases "i < num_cells")
    case True
    obtain x w1 where x: "lib_Uniform L x_min x_max (random sim) = (x, w1)"
      by (cases "lib_Uniform L x_min x_max (random sim)")
    obtain y w2 where y: "lib_Uniform L y_min y_max w1 = (y, w2)"
      by (cases "lib_Uniform L y_min y_max w1")
    show ?thesis
      using True "1.IH" [OF True, of "(x, w1)" x w1 "(y, w2)" y w2]
      by (subst create_cells.simps) (simp add: x y Let_def)
  next
    case False
    then show ?thesis by (subst create_cells.simps) simp
  qed
qed

lemma length_spec_initial_xy: "length (spec_initial_xy L n w) = n"
  by (induction n arbitrary: w) (simp_all add: Let_def split_def)

lemma spec_initial_xy_in_range:
  assumes "\<forall>w. - 75 \<le> fst (lib_Uniform L (- 75) 75 w) \<and> fst (lib_Uniform L (- 75) 75 w) \<le> 75"
  shows "list_all (\<lambda>xy. - 75 \<le> fst xy \<and> fst xy \<le> 75 \<and> - 75 \<le> snd xy \<and> snd xy \<le> 75)
           (spec_initial_xy L n w)"
  using assms by (induction n arbitrary: w) (simp_all add: Let_def split_def)

lemma Simulate_rm:
  "rm (snd (Simulate L p w)) = map (new_cell L) (spec_initial_xy L 10 w)"
  by (simp add: Simulate_def Let_def create_cells_rm num_cells_def)

text \<open>
  C9. The set-up creates exactly 10 agents, each of diameter 6 and with the growth behaviour
  added to its behaviours; the x and y of the agents are the values drawn in turn from the
  uniform random source with the bounds -75 and 75 (these are \<open>x_min = y_min\<close> and
  \<open>x_max = y_max\<close>), so that they lie in \<open>[-75, 75]\<close> whenever the source returns a value
  between the bounds it is given; the scheduler is then asked once, for exactly 600 steps.
\<close>

theorem Simulate_setup:
  "length (rm (snd (Simulate L p w))) = 10
   \<and> list_all (\<lambda>c. GetDiameter c = 6
        \<and> biology_modules (base c) = biology_modules (lib_Cell_default L) @ [GrowthModule])
       (rm (snd (Simulate L p w)))
   \<and> map (\<lambda>c. (at0 (GetPosition c), at1 (GetPosition c))) (rm (snd (Simulate L p w))) =
       spec_initial_xy L 10 w
   \<and> ((\<forall>v. - 75 \<le> fst (lib_Uniform L (- 75) 75 v) \<and> fst (lib_Uniform L (- 75) 75 v) \<le> 75)
      \<longrightarrow> list_all (\<lambda>c. - 75 \<le> at0 (GetPosition c) \<and> at0 (GetPosition c) \<le> 75
             \<and> - 75 \<le> at1 (GetPosition c) \<and> at1 (GetPosition c) \<le> 75)
           (rm (snd (Simulate L p w))))
   \<and> x_min = - 75 \<and> y_min = - 75 \<and> x_max = 75 \<and> y_max = 75
   \<and> scheduler_steps (snd (Simulate L p w)) = [600]"
proof -
  have xy: "(\<lambda>c. (at0 (GetPosition c), at1 (GetPosition c))) \<circ> new_cell L = (\<lambda>xy. xy)"
    by (rule ext) (simp add: new_cell_def GetPosition_def)
  have len: "length (rm (snd (Simulate L p w))) = 10"
    by (simp add: Simulate_rm length_spec_initial_xy)
  have dia: "list_all (\<lambda>c. GetDiameter c = 6
        \<and> biology_modules (base c) = biology_modules (lib_Cell_default L) @ [GrowthModule])
       (rm (snd (Simulate L p w)))"
    by (simp add: Simulate_rm list_all_iff new_cell_def GetDiameter_def)
  have pos: "map (\<lambda>c. (at0 (GetPosition c), at1 (GetPosition c))) (rm (snd (Simulate L p w))) =
       spec_initial_xy L 10 w"
    by (simp add: Simulate_rm xy)
  have rng: "list_all (\<lambda>c. - 75 \<le> at0 (GetPosition c) \<and> at0 (GetPosition c) \<le> 75
             \<and> - 75 \<le> at1 (GetPosition c) \<and> at1 (GetPosition c) \<le> 75)
           (rm (snd (Simulate L p w)))"
    if "\<forall>v. - 75 \<le> fst (lib_Uniform L (- 75) 75 v) \<and> fst (lib_Uniform L (- 75) 75 v) \<le> 75"
    using spec_initial_xy_in_range [OF that, of 10 w]
    by (simp add: Simulate_rm list_all_iff new_cell_def GetPosition_def)
  have steps: "scheduler_steps (snd (Simulate L p w)) = [600]"
    by (simp add: Simulate_def Let_def create_cells_scheduler_steps simulation_steps_def)
  show ?thesis
    using len dia pos rng steps by (simp add: bounds)
qed

theorem Simulate_setup_witness:
  "(\<forall>v. - 75 \<le> fst (lib_Uniform test_library (- 75) 75 v)
       \<and> fst (lib_Uniform test_library (- 75) 75 v) \<le> 75)
   \<and> length (rm (snd (Simulate test_library test_param 0))) = 10
   \<and> list_all (\<lambda>c. - 75 \<le> at0 (GetPosition c) \<and> at0 (GetPosition c) \<le> 75
             \<and> - 75 \<le> at1 (GetPosition c) \<and> at1 (GetPosition c) \<le> 75)
           (rm (snd (Simulate test_library test_param 0)))
   \<and> scheduler_steps (snd (Simulate test_library test_param 0)) = [600]"
proof -
  have h: "\<forall>v. - 75 \<le> fst (lib_Uniform test_library (- 75) 75 v)
       \<and> fst (lib_Uniform test_library (- 75) 75 v) \<le> 75"
    by (simp add: test_library_def)
  show ?thesis
    using h Simulate_setup [of test_library test_param 0] by blast
qed

text \<open>
  C10. A cell made by the constructor that takes a position alone can divide and has the
  colour 0; so do all the 10 agents that the set-up creates.
\<close>

theorem initial_cells_can_divide:
  "GetCanDivide (MyCellExt_position L pos) \<and> GetCellColor (MyCellExt_position L pos) = 0
   \<and> length (rm (snd (Simulate L p w))) = 10
   \<and> list_all (\<lambda>c. GetCanDivide c \<and> GetCellColor c = 0) (rm (snd (Simulate L p w)))"
  by (simp add: Simulate_rm length_spec_initial_xy list_all_iff new_cell_def
      MyCellExt_position_def GetCanDivide_def GetCellColor_def)

end
